theory Spec2Isabelle
  imports Main "HOL-Library.Monad_Syntax" "HOL-Library.Sublist" "HOL-Library.Char_ord"
    "HOL-Library.List_Lexorder"
begin

section \<open>JSON values and the Python operations used on them\<close>

text \<open>
  The configuration document, the fragment files and the payloads exchanged with the
  Meraki SDK are JSON values. A Python dict keeps insertion order and has distinct keys:
  it is an association list, updated in place when the key exists and extended at the
  end otherwise. Floating point numbers do not occur in the code paths modelled here.
\<close>

datatype json =
    JNull
  | JBool bool
  | JNum int
  | JStr string
  | JList "json list"
  | JDict "(string \<times> json) list"

type_synonym pydict = "(string \<times> json) list"

text \<open>\<open>d[k] = v\<close> on a dict.\<close>

fun dict_set :: "'k \<Rightarrow> 'v \<Rightarrow> ('k \<times> 'v) list \<Rightarrow> ('k \<times> 'v) list" where
  "dict_set k v [] = [(k, v)]"
| "dict_set k v (p # d) = (if fst p = k then (fst p, v) # d else p # dict_set k v d)"

text \<open>\<open>del d[k]\<close> on a dict that has the key.\<close>

definition dict_del :: "'k \<Rightarrow> ('k \<times> 'v) list \<Rightarrow> ('k \<times> 'v) list" where
  "dict_del k d = filter (\<lambda>p. fst p \<noteq> k) d"

definition dict_keys :: "('k \<times> 'v) list \<Rightarrow> 'k list" where
  "dict_keys d = map fst d"

text \<open>\<open>key.startswith(p)\<close>.\<close>

definition startswith :: "string \<Rightarrow> string \<Rightarrow> bool" where
  "startswith s p = prefix p s"

text \<open>\<open>p in s\<close> for two strings.\<close>

fun is_substr :: "string \<Rightarrow> string \<Rightarrow> bool" where
  "is_substr p [] = (p = [])"
| "is_substr p (c # cs) = (prefix p (c # cs) \<or> is_substr p cs)"

text \<open>Python truthiness, as tested by \<open>if x\<close> and \<open>not x\<close>.\<close>

fun truthy :: "json \<Rightarrow> bool" where
  "truthy JNull = False"
| "truthy (JBool b) = b"
| "truthy (JNum n) = (n \<noteq> 0)"
| "truthy (JStr s) = (s \<noteq> [])"
| "truthy (JList xs) = (xs \<noteq> [])"
| "truthy (JDict d) = (d \<noteq> [])"

text \<open>
  In the functions below \<open>None\<close> is an uncaught Python exception (TypeError, KeyError,
  IndexError, AttributeError) that leaves the function.

  \<open>k in x\<close> with a string \<open>k\<close>: key membership on a dict, element membership on a
  list, substring on a string, TypeError otherwise.
\<close>

fun py_in :: "string \<Rightarrow> json \<Rightarrow> bool option" where
  "py_in k (JDict d) = Some (k \<in> set (dict_keys d))"
| "py_in k (JList xs) = Some (JStr k \<in> set xs)"
| "py_in k (JStr s) = Some (is_substr k s)"
| "py_in k _ = None"

text \<open>\<open>x[k]\<close> with a string \<open>k\<close>: only a dict that has the key returns.\<close>

fun py_getitem :: "json \<Rightarrow> string \<Rightarrow> json option" where
  "py_getitem (JDict d) k = map_of d k"
| "py_getitem _ k = None"

text \<open>\<open>x[0]\<close>.\<close>

fun py_first :: "json \<Rightarrow> json option" where
  "py_first (JList (x # xs)) = Some x"
| "py_first (JStr (c # cs)) = Some (JStr [c])"
| "py_first _ = None"

text \<open>\<open>x.get(k, default)\<close>: AttributeError on anything but a dict.\<close>

fun py_get :: "json \<Rightarrow> string \<Rightarrow> json \<Rightarrow> json option" where
  "py_get (JDict d) k dflt = Some (case map_of d k of None \<Rightarrow> dflt | Some v \<Rightarrow> v)"
| "py_get _ k dflt = None"

text \<open>\<open>for item in x\<close>: the items a loop visits; a dict yields its keys.\<close>

fun py_iter :: "json \<Rightarrow> json list option" where
  "py_iter (JList xs) = Some xs"
| "py_iter (JDict d) = Some (map JStr (dict_keys d))"
| "py_iter (JStr s) = Some (map (\<lambda>c. JStr [c]) s)"
| "py_iter _ = None"

section \<open>utils.py: separating custom fields\<close>

text \<open>
  \<open>separate_custom_fields\<close> walks \<open>config.items()\<close> and stores each pair in one of two
  fresh dicts.
\<close>

fun separate_loop :: "pydict \<Rightarrow> pydict \<times> pydict \<Rightarrow> pydict \<times> pydict" where
  "separate_loop [] acc = acc"
| "separate_loop (item # items) acc =
     (if startswith (fst item) ''_''
      then separate_loop items (dict_set (fst item) (snd item) (fst acc), snd acc)
      else separate_loop items (fst acc, dict_set (fst item) (snd item) (snd acc)))"

definition separate_custom_fields :: "pydict \<Rightarrow> pydict \<times> pydict" where
  "separate_custom_fields config = separate_loop config ([], [])"

section \<open>meraki_functions.py: the SDK wrappers\<close>

text \<open>
  The Meraki SDK is outside the repository. Every invocation of an SDK method is an event
  of the run: the method, its positional arguments and its keyword arguments. What the
  method does is given by the environment, and may depend on the events so far: it
  returns a value, raises \<open>meraki.APIError\<close> (with its \<open>status\<close>, its \<open>message\<close> and the
  text \<open>str(e)\<close>), or raises another exception (with its text). The environment also
  holds the fragment files of the configuration directory, as parsed JSON, and the
  organisation identifier \<open>ORG_ID\<close>.
\<close>

datatype sdk_op =
    CreateOrganizationNetwork | UpdateNetwork | GetNetworkGroupPolicies
  | GetNetworkApplianceContentFilteringCategories | GetNetworkApplianceVlans
  | UpdateNetworkApplianceVlansSettings | CreateNetworkApplianceVlan
  | UpdateNetworkApplianceVlan | GetNetworkDevices | UpdateDevice
  | UpdateNetworkApplianceVpnSiteToSiteVpn | GetNetworkApplianceVpnSiteToSiteVpn
  | UpdateNetworkSyslogServers | UpdateNetworkSnmp | UpdateNetworkApplianceSecurityMalware
  | UpdateNetworkApplianceContentFiltering
  | GetNetworkApplianceTrafficShapingUplinkBandwidth
  | UpdateNetworkApplianceTrafficShapingUplinkBandwidth | ClaimNetworkDevices
  | GetNetworkFirmwareUpgrades | UpdateNetworkFirmwareUpgrades | GetNetworkAppliancePorts
  | UpdateNetworkAppliancePort | UpdateDeviceApplianceUplinksSettings

datatype event = Sdk sdk_op "json list" pydict | Sleep nat

datatype sdk_outcome = Returned json | APIError json json string | OtherError string

record env =
  respond :: "event list \<Rightarrow> sdk_op \<Rightarrow> json list \<Rightarrow> pydict \<Rightarrow> sdk_outcome"
  files :: "string \<Rightarrow> json option"
  ORG_ID :: json

text \<open>
  \<open>dashboard.x.method(args, **kwargs)\<close> inside a \<open>try\<close>: unpacking anything but a
  mapping raises TypeError before the method is entered, so no event is recorded.
\<close>

definition sdk_call ::
  "env \<Rightarrow> event list \<Rightarrow> sdk_op \<Rightarrow> json list \<Rightarrow> json \<Rightarrow> sdk_outcome \<times> event list" where
  "sdk_call e tr op args kwargs =
     (case kwargs of
        JDict kw \<Rightarrow> (respond e tr op args kw, tr @ [Sdk op args kw])
      | _ \<Rightarrow> (OtherError ''argument after ** must be a mapping'', tr))"

text \<open>
  The handlers shared by the plain wrappers: \<open>return None, response\<close>,
  \<open>return e.status, str(e)\<close> and \<open>return "500", str(e)\<close>. \<open>JNull\<close> is Python's None.
\<close>

fun plain_result :: "sdk_outcome \<Rightarrow> json \<times> json" where
  "plain_result (Returned response) = (JNull, response)"
| "plain_result (APIError status message text) = (status, JStr text)"
| "plain_result (OtherError text) = (JStr ''500'', JStr text)"

definition wrapper ::
  "env \<Rightarrow> event list \<Rightarrow> sdk_op \<Rightarrow> json list \<Rightarrow> json \<Rightarrow> (json \<times> json) \<times> event list" where
  "wrapper e tr op args kwargs =
     (plain_result (fst (sdk_call e tr op args kwargs)), snd (sdk_call e tr op args kwargs))"

definition update_network where
  "update_network e tr network_id network_config =
     wrapper e tr UpdateNetwork [network_id] network_config"

definition get_network_group_policies where
  "get_network_group_policies e tr network_id =
     wrapper e tr GetNetworkGroupPolicies [network_id] (JDict [])"

definition get_content_filtering_categories where
  "get_content_filtering_categories e tr network_id =
     wrapper e tr GetNetworkApplianceContentFilteringCategories [network_id] (JDict [])"

definition get_vlans where
  "get_vlans e tr network_id = wrapper e tr GetNetworkApplianceVlans [network_id] (JDict [])"

definition get_network_devices where
  "get_network_devices e tr network_id = wrapper e tr GetNetworkDevices [network_id] (JDict [])"

definition update_device where
  "update_device e tr serial device_config = wrapper e tr UpdateDevice [serial] device_config"

definition update_site_to_site_vpn where
  "update_site_to_site_vpn e tr network_id site2site_configs =
     wrapper e tr UpdateNetworkApplianceVpnSiteToSiteVpn [network_id] site2site_configs"

definition get_site_to_site_vpn where
  "get_site_to_site_vpn e tr network_id =
     wrapper e tr GetNetworkApplianceVpnSiteToSiteVpn [network_id] (JDict [])"

definition update_sys_log_servers where
  "update_sys_log_servers e tr network_id syslog_config =
     wrapper e tr UpdateNetworkSyslogServers [network_id] syslog_config"

definition update_snmp where
  "update_snmp e tr network_id snmp_config =
     wrapper e tr UpdateNetworkSnmp [network_id] snmp_config"

definition update_malware_settings where
  "update_malware_settings e tr network_id amp_config =
     wrapper e tr UpdateNetworkApplianceSecurityMalware [network_id] amp_config"

definition update_content_filtering_settings where
  "update_content_filtering_settings e tr network_id content_filtering_config =
     wrapper e tr UpdateNetworkApplianceContentFiltering [network_id] content_filtering_config"

definition get_uplink_bandwidth where
  "get_uplink_bandwidth e tr network_id =
     wrapper e tr GetNetworkApplianceTrafficShapingUplinkBandwidth [network_id] (JDict [])"

definition update_traffic_shaping_uplink_bandwidth_settings where
  "update_traffic_shaping_uplink_bandwidth_settings e tr network_id cfg =
     wrapper e tr UpdateNetworkApplianceTrafficShapingUplinkBandwidth [network_id] cfg"

definition meraki_claim_devices where
  "meraki_claim_devices e tr network_id serials =
     wrapper e tr ClaimNetworkDevices [network_id, serials] (JDict [])"

definition get_network_firmware_upgrades where
  "get_network_firmware_upgrades e tr network_id =
     wrapper e tr GetNetworkFirmwareUpgrades [network_id] (JDict [])"

definition get_network_appliance_ports where
  "get_network_appliance_ports e tr network_id =
     wrapper e tr GetNetworkAppliancePorts [network_id] (JDict [])"

definition update_network_appliance_port where
  "update_network_appliance_port e tr network_id appliance_port_config =
     wrapper e tr UpdateNetworkAppliancePort [network_id] appliance_port_config"

definition update_mx_uplinks where
  "update_mx_uplinks e tr serial uplink_config =
     wrapper e tr UpdateDeviceApplianceUplinksSettings [serial] uplink_config"

text \<open>
  \<open>update_vlan\<close> passes \<open>networkId\<close> and \<open>vlanId\<close> by keyword next to \<open>**vlan_config\<close>:
  a payload that repeats one of them is a TypeError at the call, caught as an SDK error.
\<close>

definition update_vlan where
  "update_vlan e tr network_id vlan_id vlan_config =
     (case vlan_config of
        JDict kw \<Rightarrow>
          (if ''networkId'' \<in> set (dict_keys kw) \<or> ''vlanId'' \<in> set (dict_keys kw)
           then ((JStr ''500'', JStr ''got multiple values for keyword argument''), tr)
           else (plain_result
                   (respond e tr UpdateNetworkApplianceVlan []
                      ((''networkId'', network_id) # (''vlanId'', vlan_id) # kw)),
                 tr @ [Sdk UpdateNetworkApplianceVlan []
                         ((''networkId'', network_id) # (''vlanId'', vlan_id) # kw)]))
      | _ \<Rightarrow> ((JStr ''500'', JStr ''argument after ** must be a mapping''), tr))"

text \<open>
  \<open>needle in e.message['errors'][0]\<close>, evaluated inside an \<open>except\<close> clause: an
  exception here is not caught by the sibling \<open>except Exception\<close> clause.
\<close>

definition first_error_has :: "string \<Rightarrow> json \<Rightarrow> bool option" where
  "first_error_has needle message =
     do { errors \<leftarrow> py_getitem message ''errors'';
          first_error \<leftarrow> py_first errors;
          py_in needle first_error }"

text \<open>
  \<open>create_network\<close>: when the create call raises an APIError whose first error contains
  \<open>taken\<close>, the network is updated through the cached identifier of its name. The cache
  maps network names to identifiers.
\<close>

definition cache_lookup :: "(string \<Rightarrow> json option) \<Rightarrow> json \<Rightarrow> json option" where
  "cache_lookup net_name_to_id name =
     (case name of JStr s \<Rightarrow> net_name_to_id s | _ \<Rightarrow> None)"

definition create_network ::
  "env \<Rightarrow> event list \<Rightarrow> json \<Rightarrow> (string \<Rightarrow> json option) \<Rightarrow> ((json \<times> json) \<times> event list) option" where
  "create_network e tr network_config net_name_to_id =
     (case sdk_call e tr CreateOrganizationNetwork [ORG_ID e] network_config of
        (APIError status message text, tr') \<Rightarrow>
          do { taken \<leftarrow> first_error_has ''taken'' message;
               if taken
               then do { name \<leftarrow> py_getitem network_config ''name'';
                         network_id \<leftarrow> cache_lookup net_name_to_id name;
                         Some (update_network e tr' network_id network_config) }
               else Some ((status, JStr text), tr') }
      | (outcome, tr') \<Rightarrow> Some (plain_result outcome, tr'))"

text \<open>
  \<open>create_vlan\<close> first enables VLANs, then creates the VLAN; an APIError of either call
  whose first error contains \<open>taken\<close> or \<open>bound\<close> turns into an update of the VLAN
  \<open>vlan_config['id']\<close>, with \<open>id\<close> removed from the payload.
\<close>

definition create_vlan_handler ::
  "env \<Rightarrow> event list \<Rightarrow> json \<Rightarrow> json \<Rightarrow> sdk_outcome \<Rightarrow> ((json \<times> json) \<times> event list) option" where
  "create_vlan_handler e tr network_id vlan_config outcome =
     (case outcome of
        APIError status message text \<Rightarrow>
          do { taken \<leftarrow> first_error_has ''taken'' message;
               hit \<leftarrow> (if taken then Some True else first_error_has ''bound'' message);
               if hit
               then do { vlan_id \<leftarrow> py_getitem vlan_config ''id'';
                         Some (update_vlan e tr network_id vlan_id
                                 (case vlan_config of
                                    JDict kw \<Rightarrow> JDict (dict_del ''id'' kw)
                                  | other \<Rightarrow> other)) }
               else Some ((status, JStr text), tr) }
      | other \<Rightarrow> Some (plain_result other, tr))"

definition create_vlan ::
  "env \<Rightarrow> event list \<Rightarrow> json \<Rightarrow> json \<Rightarrow> ((json \<times> json) \<times> event list) option" where
  "create_vlan e tr network_id vlan_config =
     (case respond e tr UpdateNetworkApplianceVlansSettings [network_id]
             [(''vlansEnabled'', JBool True)] of
        Returned response \<Rightarrow>
          create_vlan_handler e
            (snd (sdk_call e
                    (tr @ [Sdk UpdateNetworkApplianceVlansSettings [network_id]
                             [(''vlansEnabled'', JBool True)]])
                    CreateNetworkApplianceVlan [network_id] vlan_config))
            network_id vlan_config
            (fst (sdk_call e
                    (tr @ [Sdk UpdateNetworkApplianceVlansSettings [network_id]
                             [(''vlansEnabled'', JBool True)]])
                    CreateNetworkApplianceVlan [network_id] vlan_config))
      | failed \<Rightarrow>
          create_vlan_handler e
            (tr @ [Sdk UpdateNetworkApplianceVlansSettings [network_id]
                     [(''vlansEnabled'', JBool True)]])
            network_id vlan_config failed)"

text \<open>
  \<open>trigger_network_firmware_upgrades\<close>: an APIError whose first error says the network
  is already on this version counts as success.
\<close>

definition trigger_network_firmware_upgrades ::
  "env \<Rightarrow> event list \<Rightarrow> json \<Rightarrow> json \<Rightarrow> ((json \<times> json) \<times> event list) option" where
  "trigger_network_firmware_upgrades e tr network_id firmware_upgrade_config =
     (case sdk_call e tr UpdateNetworkFirmwareUpgrades [network_id] firmware_upgrade_config of
        (APIError status message text, tr') \<Rightarrow>
          do { already \<leftarrow> first_error_has ''already on this version'' message;
               if already
               then Some ((JNull,
                           JStr ''Firmware is up to date with specified version already. Skipping.''),
                          tr')
               else Some ((status, JStr text), tr') }
      | (outcome, tr') \<Rightarrow> Some (plain_result outcome, tr'))"

section \<open>utils.py: references, statuses and the single-call appliers\<close>

text \<open>
  \<open>load_ref_config\<close> joins the file name to the configuration directory, and returns the
  parsed file when it exists and None otherwise. Existing fragment files are taken to
  hold valid JSON. A file name that is not a string is a TypeError.
\<close>

definition load_ref_config :: "env \<Rightarrow> json \<Rightarrow> json option" where
  "load_ref_config e filename =
     (case filename of
        JStr f \<Rightarrow> Some (case files e f of None \<Rightarrow> JNull | Some ref_config \<Rightarrow> ref_config)
      | _ \<Rightarrow> None)"

text \<open>
  The test every applier starts with, \<open>if "_ref" in config: config = load_ref_config(config["_ref"])\<close>:
  whether the payload had a reference, and the payload after the assignment.
\<close>

definition check_ref :: "env \<Rightarrow> json \<Rightarrow> (bool \<times> json) option" where
  "check_ref e config =
     do { has_ref \<leftarrow> py_in ''_ref'' config;
          if has_ref
          then do { filename \<leftarrow> py_getitem config ''_ref'';
                    loaded \<leftarrow> load_ref_config e filename;
                    Some (True, loaded) }
          else Some (False, config) }"

datatype status = Skipped | Success | Partial | Failure

text \<open>
  An applier returns its status and output, next to the events so far. The log buffer
  that the source threads through every applier is text for the log file only and is
  left out.
\<close>

type_synonym applied = "((status \<times> json) \<times> event list) option"

definition ref_not_found :: json where
  "ref_not_found = JStr ''Ref File not found... skipping.''"

text \<open>The tail shared by the single-call appliers: Failure on an error code, else Success.\<close>

definition finish :: "(json \<times> json) \<times> event list \<Rightarrow> applied" where
  "finish r =
     (if truthy (fst (fst r)) then Some ((Failure, snd (fst r)), snd r)
      else Some ((Success, snd (fst r)), snd r))"

definition claim_devices :: "env \<Rightarrow> event list \<Rightarrow> json \<Rightarrow> json \<Rightarrow> applied" where
  "claim_devices e tr net_id config =
     do { (has_ref, config) \<leftarrow> check_ref e config;
          if has_ref \<and> \<not> truthy config then Some ((Failure, ref_not_found), tr)
          else do { serials \<leftarrow> py_get config ''serials'' (JList []);
                    (case meraki_claim_devices e tr net_id serials of
                       ((error_code, response), tr') \<Rightarrow>
                         if truthy error_code then Some ((Failure, response), tr')
                         else Some ((Success, response), tr' @ [Sleep 120])) } }"

text \<open>
  \<open>site_to_site_vpn_config\<close>. Each hub of a spoke is a dict updated in place: its
  \<open>hubId\<close> is replaced when it is truthy and a key of the cache. The list \<open>valid_hubs\<close>
  that the source fills is never read, so the model has no counterpart for it. The cache
  has string keys: a number is never a key, a list or dict is unhashable.
\<close>

definition translate_hub :: "(string \<Rightarrow> json option) \<Rightarrow> json \<Rightarrow> json option" where
  "translate_hub net_name_to_id hub =
     do { hubId \<leftarrow> py_get hub ''hubId'' JNull;
          if truthy hubId
          then (case hubId of
                  JStr name \<Rightarrow>
                    (case net_name_to_id name of
                       Some network_id \<Rightarrow>
                         (case hub of JDict h \<Rightarrow> Some (JDict (dict_set ''hubId'' network_id h))
                                    | _ \<Rightarrow> None)
                     | None \<Rightarrow> Some hub)
                | JList xs \<Rightarrow> None
                | JDict d \<Rightarrow> None
                | _ \<Rightarrow> Some hub)
          else Some hub }"

definition site_to_site_payload :: "(string \<Rightarrow> json option) \<Rightarrow> json \<Rightarrow> json option" where
  "site_to_site_payload net_name_to_id config =
     do { mode \<leftarrow> py_get config ''mode'' (JStr ''hub'');
          hubs \<leftarrow> py_get config ''hubs'' JNull;
          if mode = JStr ''spoke''
          then (if truthy hubs
                then do { items \<leftarrow> py_iter hubs;
                          translated \<leftarrow> those (map (translate_hub net_name_to_id) items);
                          (case (hubs, config) of
                             (JList xs, JDict c) \<Rightarrow> Some (JDict (dict_set ''hubs'' (JList translated) c))
                           | _ \<Rightarrow> Some config) }
                else (case config of JDict c \<Rightarrow> Some (JDict (dict_set ''mode'' (JStr ''hub'') c))
                                   | _ \<Rightarrow> None))
          else Some config }"

definition site_to_site_vpn_config ::
  "env \<Rightarrow> event list \<Rightarrow> json \<Rightarrow> (string \<Rightarrow> json option) \<Rightarrow> json \<Rightarrow> applied" where
  "site_to_site_vpn_config e tr net_id net_name_to_id config =
     do { (has_ref, config) \<leftarrow> check_ref e config;
          if has_ref \<and> \<not> truthy config then Some ((Failure, ref_not_found), tr)
          else do { payload \<leftarrow> site_to_site_payload net_name_to_id config;
                    finish (update_site_to_site_vpn e tr net_id payload) } }"

definition syslog_server_config :: "env \<Rightarrow> event list \<Rightarrow> json \<Rightarrow> json \<Rightarrow> applied" where
  "syslog_server_config e tr net_id config =
     do { (has_ref, config) \<leftarrow> check_ref e config;
          if has_ref \<and> \<not> truthy config then Some ((Failure, ref_not_found), tr)
          else finish (update_sys_log_servers e tr net_id config) }"

text \<open>
  \<open>snmp_config\<close> stores the loaded fragment in a variable of its own, \<open>syslog_config\<close>,
  and passes \<open>config\<close> to the update.
\<close>

definition snmp_config :: "env \<Rightarrow> event list \<Rightarrow> json \<Rightarrow> json \<Rightarrow> applied" where
  "snmp_config e tr net_id config =
     do { (has_ref, syslog_config) \<leftarrow> check_ref e config;
          if has_ref \<and> \<not> truthy syslog_config then Some ((Failure, ref_not_found), tr)
          else finish (update_snmp e tr net_id config) }"

definition amp_config :: "env \<Rightarrow> event list \<Rightarrow> json \<Rightarrow> json \<Rightarrow> applied" where
  "amp_config e tr net_id config =
     do { (has_ref, config) \<leftarrow> check_ref e config;
          if has_ref \<and> \<not> truthy config then Some ((Failure, ref_not_found), tr)
          else finish (update_malware_settings e tr net_id config) }"

section \<open>utils.py: firmware and content filtering\<close>

text \<open>
  More Python operations. \<open>x[k] = v\<close> and \<open>del x[k]\<close> with a string \<open>k\<close> succeed on a
  dict only. \<open>x[i]\<close> with a loop item \<open>i\<close> is used on the container the loop runs over:
  only a dict, whose items are its keys, returns a value that the code can go on with.
  A dict key of the code's own lookup tables must be hashable, and True and False are
  the keys 1 and 0.
\<close>

fun py_setitem :: "json \<Rightarrow> string \<Rightarrow> json \<Rightarrow> json option" where
  "py_setitem (JDict d) k v = Some (JDict (dict_set k v d))"
| "py_setitem _ k v = None"

fun py_delitem :: "json \<Rightarrow> string \<Rightarrow> json option" where
  "py_delitem (JDict d) k = (if k \<in> set (dict_keys d) then Some (JDict (dict_del k d)) else None)"
| "py_delitem _ k = None"

fun py_subscript :: "json \<Rightarrow> json \<Rightarrow> json option" where
  "py_subscript x (JStr k) = py_getitem x k"
| "py_subscript x _ = None"

fun py_key :: "json \<Rightarrow> json option" where
  "py_key (JList xs) = None"
| "py_key (JDict d) = None"
| "py_key (JBool b) = Some (JNum (if b then 1 else 0))"
| "py_key x = Some x"

text \<open>A \<open>for\<close> loop whose body may raise: the state after the last item.\<close>

fun for_each :: "('a \<Rightarrow> 's \<Rightarrow> 's option) \<Rightarrow> 'a list \<Rightarrow> 's \<Rightarrow> 's option" where
  "for_each body [] s = Some s"
| "for_each body (x # xs) s = Option.bind (body x s) (for_each body xs)"

text \<open>
  The table \<open>firmware_name_to_id\<close>: for every product of the response, the current
  version and then the available versions, short name to identifier.
\<close>

definition add_version :: "json \<Rightarrow> (json \<times> json) list \<Rightarrow> (json \<times> json) list option" where
  "add_version version firmware_name_to_id =
     do { version_id \<leftarrow> py_getitem version ''id'';
          shortName \<leftarrow> py_getitem version ''shortName'';
          key \<leftarrow> py_key shortName;
          Some (dict_set key version_id firmware_name_to_id) }"

definition add_product :: "json \<Rightarrow> json \<Rightarrow> (json \<times> json) list \<Rightarrow> (json \<times> json) list option" where
  "add_product products product firmware_name_to_id =
     do { info \<leftarrow> py_subscript products product;
          current_version \<leftarrow> py_getitem info ''currentVersion'';
          table \<leftarrow> add_version current_version firmware_name_to_id;
          available_versions \<leftarrow> py_getitem info ''availableVersions'';
          versions \<leftarrow> py_iter available_versions;
          for_each add_version versions table }"

definition firmware_table :: "json \<Rightarrow> (json \<times> json) list option" where
  "firmware_table response =
     do { products \<leftarrow> py_getitem response ''products'';
          names \<leftarrow> py_iter products;
          for_each (add_product products) names [] }"

text \<open>
  The conversion of one product of the configuration: \<open>Inl shortname\<close> when the requested
  version is not in the table (the applier returns Failure there), else the product as
  updated in place and the short names appended to \<open>firmware_shortnames\<close>.
\<close>

definition convert_upgrade ::
  "(json \<times> json) list \<Rightarrow> json \<Rightarrow> (json + json \<times> json list) option" where
  "convert_upgrade firmware_name_to_id product_upgrade =
     do { has_next \<leftarrow> py_in ''nextUpgrade'' product_upgrade;
          if \<not> has_next then Some (Inr (product_upgrade, []))
          else do {
            next_upgrade \<leftarrow> py_getitem product_upgrade ''nextUpgrade'';
            has_to \<leftarrow> py_in ''toVersion'' next_upgrade;
            if \<not> has_to then Some (Inr (product_upgrade, []))
            else do {
              to_version \<leftarrow> py_getitem next_upgrade ''toVersion'';
              has_name \<leftarrow> py_in ''_name_id'' to_version;
              if \<not> has_name then Some (Inr (product_upgrade, []))
              else do {
                shortname \<leftarrow> py_getitem to_version ''_name_id'';
                key \<leftarrow> py_key shortname;
                (case map_of firmware_name_to_id key of
                   None \<Rightarrow> Some (Inl shortname)
                 | Some version_id \<Rightarrow>
                     do { deleted \<leftarrow> py_delitem to_version ''_name_id'';
                          to_version' \<leftarrow> py_setitem deleted ''id'' version_id;
                          next_upgrade' \<leftarrow> py_setitem next_upgrade ''toVersion'' to_version';
                          product_upgrade' \<leftarrow> py_setitem product_upgrade ''nextUpgrade'' next_upgrade';
                          Some (Inr (product_upgrade', [shortname])) }) } } } }"

text \<open>
  The loop over \<open>config['products']\<close>; the state is the products as updated so far and
  the short names, or the short name that was not found, after which nothing is done.
\<close>

definition convert_product ::
  "(json \<times> json) list \<Rightarrow> json \<Rightarrow> json + json \<times> json list \<Rightarrow> (json + json \<times> json list) option" where
  "convert_product firmware_name_to_id product state =
     (case state of
        Inl shortname \<Rightarrow> Some (Inl shortname)
      | Inr (products, firmware_shortnames) \<Rightarrow>
          do { product_upgrade \<leftarrow> py_subscript products product;
               converted \<leftarrow> convert_upgrade firmware_name_to_id product_upgrade;
               (case converted of
                  Inl shortname \<Rightarrow> Some (Inl shortname)
                | Inr (product_upgrade', names) \<Rightarrow>
                    (case product of
                       JStr k \<Rightarrow>
                         do { products' \<leftarrow> py_setitem products k product_upgrade';
                              Some (Inr (products', firmware_shortnames @ names)) }
                     | _ \<Rightarrow> None)) })"

definition convert_config ::
  "(json \<times> json) list \<Rightarrow> json \<Rightarrow> (json + json \<times> json list) option" where
  "convert_config firmware_name_to_id config =
     do { has_products \<leftarrow> py_in ''products'' config;
          if has_products
          then do { products \<leftarrow> py_getitem config ''products'';
                    names \<leftarrow> py_iter products;
                    converted \<leftarrow> for_each (convert_product firmware_name_to_id) names
                                  (Inr (products, []));
                    (case converted of
                       Inl shortname \<Rightarrow> Some (Inl shortname)
                     | Inr (products', firmware_shortnames) \<Rightarrow>
                         do { config' \<leftarrow> py_setitem config ''products'' products';
                              Some (Inr (config', firmware_shortnames)) }) }
          else Some (Inr (config, [])) }"

text \<open>
  \<open>firmware_upgrade\<close>. The text of the not-found output (the short name and the whole
  table, formatted) is shortened to its fixed beginning.
\<close>

definition firmware_upgrade :: "env \<Rightarrow> event list \<Rightarrow> json \<Rightarrow> json \<Rightarrow> applied" where
  "firmware_upgrade e tr net_id config =
     do { (has_ref, config) \<leftarrow> check_ref e config;
          if has_ref \<and> \<not> truthy config then Some ((Failure, ref_not_found), tr)
          else (case get_network_firmware_upgrades e tr net_id of
                  ((error_code, response), tr1) \<Rightarrow>
                    if truthy error_code then Some ((Failure, response), tr1)
                    else do {
                      firmware_name_to_id \<leftarrow> firmware_table response;
                      converted \<leftarrow> convert_config firmware_name_to_id config;
                      (case converted of
                         Inl shortname \<Rightarrow> Some ((Failure, JStr ''Unable to find version''), tr1)
                       | Inr (config', firmware_shortnames) \<Rightarrow>
                           do { ((error_code, response), tr2) \<leftarrow>
                                  trigger_network_firmware_upgrades e tr1 net_id config';
                                if truthy error_code then Some ((Failure, response), tr2)
                                else Some ((Success, JList firmware_shortnames), tr2) }) }) }"

text \<open>
  \<open>content_filtering_config\<close>: the named categories are translated through the catalogue
  of the network, names that the catalogue lacks are left out.
\<close>

definition add_category :: "json \<Rightarrow> (json \<times> json) list \<Rightarrow> (json \<times> json) list option" where
  "add_category category categories_map =
     do { name \<leftarrow> py_getitem category ''name'';
          key \<leftarrow> py_key name;
          category_id \<leftarrow> py_getitem category ''id'';
          Some (dict_set key category_id categories_map) }"

definition translate_category :: "(json \<times> json) list \<Rightarrow> json \<Rightarrow> json list \<Rightarrow> json list option" where
  "translate_category categories_map name ids =
     do { key \<leftarrow> py_key name;
          Some (case map_of categories_map key of None \<Rightarrow> ids | Some i \<Rightarrow> ids @ [i]) }"

definition content_filtering_config :: "env \<Rightarrow> event list \<Rightarrow> json \<Rightarrow> json \<Rightarrow> applied" where
  "content_filtering_config e tr net_id config =
     do { (has_ref, config) \<leftarrow> check_ref e config;
          if has_ref \<and> \<not> truthy config then Some ((Failure, ref_not_found), tr)
          else (case config of
                  JDict c \<Rightarrow>
                    (case map_of (fst (separate_custom_fields c)) ''_name_blockedUrlCategories'' of
                       None \<Rightarrow>
                         finish (update_content_filtering_settings e tr net_id
                                   (JDict (snd (separate_custom_fields c))))
                     | Some wanted \<Rightarrow>
                         (case get_content_filtering_categories e tr net_id of
                            ((error_code, response), tr1) \<Rightarrow>
                              if truthy error_code then Some ((Failure, response), tr1)
                              else do {
                                categories \<leftarrow> py_getitem response ''categories'';
                                items \<leftarrow> py_iter categories;
                                categories_map \<leftarrow> for_each add_category items [];
                                names \<leftarrow> py_iter wanted;
                                ids \<leftarrow> for_each (translate_category categories_map) names [];
                                finish (update_content_filtering_settings e tr1 net_id
                                          (JDict (dict_set ''blockedUrlCategories'' (JList ids)
                                                    (snd (separate_custom_fields c))))) }))
                | _ \<Rightarrow> None) }"

section \<open>utils.py: the list appliers\<close>

text \<open>
  \<open>vlans_config\<close>. The state of its loop is the status, the collected VPN subnets and
  the events. A \<open>continue\<close> ends the item with the state reached.
\<close>

definition add_policy :: "json \<Rightarrow> (json \<times> json) list \<Rightarrow> (json \<times> json) list option" where
  "add_policy policy net_policy_groups =
     do { name \<leftarrow> py_getitem policy ''name'';
          key \<leftarrow> py_key name;
          policy_id \<leftarrow> py_getitem policy ''groupPolicyId'';
          Some (dict_set key policy_id net_policy_groups) }"

definition vlan_group_policy :: "(json \<times> json) list \<Rightarrow> pydict \<Rightarrow> pydict \<Rightarrow> pydict option" where
  "vlan_group_policy net_policy_groups custom_fields remaining_fields =
     (case map_of custom_fields ''_name_groupPolicyId'' of
        None \<Rightarrow> Some remaining_fields
      | Some name \<Rightarrow>
          do { key \<leftarrow> py_key name;
               Some (case map_of net_policy_groups key of
                       None \<Rightarrow> remaining_fields
                     | Some policy_id \<Rightarrow> dict_set ''groupPolicyId'' policy_id remaining_fields) })"

definition vlan_dhcp ::
  "env \<Rightarrow> json \<Rightarrow> pydict \<Rightarrow> json \<Rightarrow> status \<times> json list \<times> event list
     \<Rightarrow> (status \<times> json list \<times> event list) option" where
  "vlan_dhcp e net_id custom_fields vlan_id state =
     (case map_of custom_fields ''_dhcp'' of
        None \<Rightarrow> Some state
      | Some dhcp_config \<Rightarrow>
          do { (has_ref, dhcp_config) \<leftarrow> check_ref e dhcp_config;
               if has_ref \<and> \<not> truthy dhcp_config
               then Some (Partial, fst (snd state), snd (snd state))
               else (case update_vlan e (snd (snd state)) net_id vlan_id dhcp_config of
                       ((error_code, response), tr') \<Rightarrow>
                         Some (if truthy error_code then Partial else fst state,
                               fst (snd state), tr')) })"

definition vlan_vpn ::
  "env \<Rightarrow> json \<Rightarrow> pydict \<Rightarrow> json \<Rightarrow> status \<times> json list \<times> event list
     \<Rightarrow> (status \<times> json list \<times> event list) option" where
  "vlan_vpn e net_id custom_fields new_vlan state =
     do { vlan_id \<leftarrow> py_getitem new_vlan ''id'';
          (case map_of custom_fields ''_vpn'' of
             None \<Rightarrow> vlan_dhcp e net_id custom_fields vlan_id state
           | Some vpn_config \<Rightarrow>
               do { (has_ref, vpn_config) \<leftarrow> check_ref e vpn_config;
                    if has_ref \<and> \<not> truthy vpn_config
                    then Some (Partial, fst (snd state), snd (snd state))
                    else do { useVpn \<leftarrow> py_get vpn_config ''useVpn'' (JBool False);
                              subnet \<leftarrow> py_getitem new_vlan ''subnet'';
                              vlan_dhcp e net_id custom_fields vlan_id
                                (fst state,
                                 fst (snd state)
                                   @ [JDict [(''localSubnet'', subnet), (''useVpn'', useVpn)]],
                                 snd (snd state)) } }) }"

definition vlan_item ::
  "env \<Rightarrow> json \<Rightarrow> (json \<times> json) list \<Rightarrow> json \<Rightarrow> status \<times> json list \<times> event list
     \<Rightarrow> (status \<times> json list \<times> event list) option" where
  "vlan_item e net_id net_policy_groups vlan_config state =
     do { (has_ref, vlan_config) \<leftarrow> check_ref e vlan_config;
          if has_ref \<and> \<not> truthy vlan_config
          then Some (Partial, fst (snd state), snd (snd state))
          else (case vlan_config of
                  JDict c \<Rightarrow>
                    do { remaining_fields \<leftarrow>
                           vlan_group_policy net_policy_groups
                             (fst (separate_custom_fields c)) (snd (separate_custom_fields c));
                         ((error_code, new_vlan), tr') \<leftarrow>
                           create_vlan e (snd (snd state)) net_id (JDict remaining_fields);
                         if truthy error_code then Some (Partial, fst (snd state), tr')
                         else vlan_vpn e net_id (fst (separate_custom_fields c)) new_vlan
                                (fst state, fst (snd state), tr') }
                | _ \<Rightarrow> None) }"

text \<open>
  After the loop: the collected subnets are appended to the site-to-site VPN settings
  of the network, and the VLANs are read back as the output.
\<close>

definition vlans_vpn_subnets ::
  "env \<Rightarrow> json \<Rightarrow> status \<times> json list \<times> event list \<Rightarrow> (status \<times> event list) option" where
  "vlans_vpn_subnets e net_id state =
     (if fst (snd state) = [] then Some (fst state, snd (snd state))
      else (case get_site_to_site_vpn e (snd (snd state)) net_id of
              ((error_code, response), tr1) \<Rightarrow>
                if truthy error_code then Some (Partial, tr1)
                else do {
                  mode \<leftarrow> py_getitem response ''mode'';
                  if mode = JStr ''none'' then Some (Partial, tr1)
                  else do {
                    subnets \<leftarrow> py_getitem response ''subnets'';
                    extended \<leftarrow> (case subnets of
                                   JList xs \<Rightarrow> Some (JList (xs @ fst (snd state)))
                                 | _ \<Rightarrow> None);
                    payload \<leftarrow> py_setitem response ''subnets'' extended;
                    (case update_site_to_site_vpn e tr1 net_id payload of
                       ((error_code, response), tr2) \<Rightarrow>
                         Some (if truthy error_code then Partial else fst state, tr2)) } }))"

definition vlans_config :: "env \<Rightarrow> event list \<Rightarrow> json \<Rightarrow> json \<Rightarrow> applied" where
  "vlans_config e tr net_id config =
     (case get_network_group_policies e tr net_id of
        ((error_code, net_policies), tr0) \<Rightarrow>
          if truthy error_code
          then Some ((Failure,
                      JStr (''Group Policies (Failure): ''
                            @ (case net_policies of JStr text \<Rightarrow> text | _ \<Rightarrow> [])
                            @ [CHR 0x0A])), tr0)
          else do {
            policies \<leftarrow> py_iter net_policies;
            net_policy_groups \<leftarrow> for_each add_policy policies [];
            items \<leftarrow> py_iter config;
            state \<leftarrow> for_each (vlan_item e net_id net_policy_groups) items (Success, [], tr0);
            (status, tr1) \<leftarrow> vlans_vpn_subnets e net_id state;
            Some ((status, snd (fst (get_vlans e tr1 net_id))), snd (get_vlans e tr1 net_id)) })"

definition per_port_item ::
  "env \<Rightarrow> json \<Rightarrow> json \<Rightarrow> status \<times> event list \<Rightarrow> (status \<times> event list) option" where
  "per_port_item e net_id per_port_config state =
     do { (has_ref, per_port_config) \<leftarrow> check_ref e per_port_config;
          if has_ref \<and> \<not> truthy per_port_config then Some (Partial, snd state)
          else (case update_network_appliance_port e (snd state) net_id per_port_config of
                  ((error_code, new_per_port), tr') \<Rightarrow>
                    Some (if truthy error_code then Partial else fst state, tr')) }"

definition vlan_per_port_config :: "env \<Rightarrow> event list \<Rightarrow> json \<Rightarrow> json \<Rightarrow> applied" where
  "vlan_per_port_config e tr net_id config =
     do { items \<leftarrow> py_iter config;
          (status, tr1) \<leftarrow> for_each (per_port_item e net_id) items (Success, tr);
          Some ((status, snd (fst (get_network_appliance_ports e tr1 net_id))),
                snd (get_network_appliance_ports e tr1 net_id)) }"

definition device_uplinks ::
  "env \<Rightarrow> json \<Rightarrow> pydict \<Rightarrow> status \<times> event list \<Rightarrow> (status \<times> event list) option" where
  "device_uplinks e serial custom_fields state =
     (case map_of custom_fields ''_mx_uplinks'' of
        None \<Rightarrow> Some state
      | Some mx_uplink_config \<Rightarrow>
          do { (has_ref, mx_uplink_config) \<leftarrow> check_ref e mx_uplink_config;
               if has_ref \<and> \<not> truthy mx_uplink_config then Some (Partial, snd state)
               else (case update_mx_uplinks e (snd state) serial mx_uplink_config of
                       ((error_code, response), tr') \<Rightarrow>
                         Some (if truthy error_code then Partial else fst state, tr')) })"

definition device_item ::
  "env \<Rightarrow> json \<Rightarrow> status \<times> event list \<Rightarrow> (status \<times> event list) option" where
  "device_item e device_config state =
     do { (has_ref, device_config) \<leftarrow> check_ref e device_config;
          if has_ref \<and> \<not> truthy device_config then Some (Partial, snd state)
          else do {
            has_serial \<leftarrow> py_in ''serial'' device_config;
            if \<not> has_serial then Some (Partial, snd state)
            else do {
              serial \<leftarrow> py_getitem device_config ''serial'';
              (case device_config of
                 JDict c \<Rightarrow>
                   (case update_device e (snd state) serial
                           (JDict (snd (separate_custom_fields (dict_del ''serial'' c)))) of
                      ((error_code, device), tr') \<Rightarrow>
                        if truthy error_code then Some (Partial, tr')
                        else device_uplinks e serial
                               (fst (separate_custom_fields (dict_del ''serial'' c)))
                               (fst state, tr'))
               | _ \<Rightarrow> None) } } }"

definition devices_config :: "env \<Rightarrow> event list \<Rightarrow> json \<Rightarrow> json \<Rightarrow> applied" where
  "devices_config e tr net_id config =
     do { items \<leftarrow> py_iter config;
          (status, tr1) \<leftarrow> for_each (device_item e) items (Success, tr);
          Some ((status, snd (fst (get_network_devices e tr1 net_id))),
                snd (get_network_devices e tr1 net_id)) }"

text \<open>
  \<open>traffic_shaping_config\<close>: a missing fragment for the uplink bandwidth sets Partial and
  the update is still attempted, with None as its payload.
\<close>

definition uplink_bandwidth ::
  "env \<Rightarrow> event list \<Rightarrow> json \<Rightarrow> pydict \<Rightarrow> (status \<times> event list) option" where
  "uplink_bandwidth e tr net_id custom_fields =
     (case map_of custom_fields ''_uplink_bandwidth'' of
        None \<Rightarrow> Some (Success, tr)
      | Some bandwidth_config \<Rightarrow>
          do { (has_ref, bandwidth_config) \<leftarrow> check_ref e bandwidth_config;
               (case update_traffic_shaping_uplink_bandwidth_settings e tr net_id bandwidth_config of
                  ((error_code, response), tr') \<Rightarrow>
                    Some (if truthy error_code then Partial
                          else if has_ref \<and> \<not> truthy bandwidth_config then Partial
                          else Success, tr')) })"

definition traffic_shaping_config :: "env \<Rightarrow> event list \<Rightarrow> json \<Rightarrow> json \<Rightarrow> applied" where
  "traffic_shaping_config e tr net_id config =
     do { (has_ref, config) \<leftarrow> check_ref e config;
          if has_ref \<and> \<not> truthy config then Some ((Failure, ref_not_found), tr)
          else (case config of
                  JDict c \<Rightarrow>
                    do { (status, tr1) \<leftarrow>
                           uplink_bandwidth e tr net_id (fst (separate_custom_fields c));
                         Some ((status,
                                JDict [(''uplink_bandwidth'',
                                        snd (fst (get_uplink_bandwidth e tr1 net_id)))]),
                               snd (get_uplink_bandwidth e tr1 net_id)) }
                | _ \<Rightarrow> None) }"

section \<open>setup.py: the network builder\<close>

text \<open>
  The completion record \<open>{"_name": ..., "settings": {name: {"status": ..., "output": ...}}}\<close>.
\<close>

record completion =
  c_name :: json
  settings :: "(string \<times> status \<times> json) list"

text \<open>
  The \<open>if\<close>/\<open>elif\<close> chain of the loop body: the applier of a setting, or None for a key
  that the chain does not know.
\<close>

definition apply_setting ::
  "env \<Rightarrow> (string \<Rightarrow> json option) \<Rightarrow> event list \<Rightarrow> json \<Rightarrow> string \<Rightarrow> json \<Rightarrow> applied option" where
  "apply_setting e net_name_to_id tr net_id setting config =
     (if setting = ''claim'' then Some (claim_devices e tr net_id config)
      else if setting = ''firmware'' then Some (firmware_upgrade e tr net_id config)
      else if setting = ''siteToSiteVPN''
        then Some (site_to_site_vpn_config e tr net_id net_name_to_id config)
      else if setting = ''amp'' then Some (amp_config e tr net_id config)
      else if setting = ''content_filtering'' then Some (content_filtering_config e tr net_id config)
      else if setting = ''syslog'' then Some (syslog_server_config e tr net_id config)
      else if setting = ''snmp'' then Some (snmp_config e tr net_id config)
      else if setting = ''vlans'' then Some (vlans_config e tr net_id config)
      else if setting = ''vlan_per_port'' then Some (vlan_per_port_config e tr net_id config)
      else if setting = ''devices'' then Some (devices_config e tr net_id config)
      else if setting = ''traffic_shaping'' then Some (traffic_shaping_config e tr net_id config)
      else None)"

text \<open>The keys that the chain knows, in the order of its branches.\<close>

definition known_settings :: "string list" where
  "known_settings =
     [''claim'', ''firmware'', ''siteToSiteVPN'', ''amp'', ''content_filtering'', ''syslog'',
      ''snmp'', ''vlans'', ''vlan_per_port'', ''devices'', ''traffic_shaping'']"

text \<open>
  One round of \<open>for setting in remaining_settings\<close>. The state is the completion record,
  the settings whose applier has been called so far, in call order (kept for the
  properties below, the source has no such list), and the events.
\<close>

definition build_step ::
  "env \<Rightarrow> (string \<Rightarrow> json option) \<Rightarrow> json \<Rightarrow> pydict \<Rightarrow> string
     \<Rightarrow> completion \<times> string list \<times> event list \<Rightarrow> (completion \<times> string list \<times> event list) option" where
  "build_step e net_name_to_id net_id network_config setting state =
     do { config \<leftarrow> map_of network_config setting;
          (case apply_setting e net_name_to_id (snd (snd state)) net_id setting config of
             None \<Rightarrow> Some state
           | Some result \<Rightarrow>
               do { ((status, output), tr') \<leftarrow> result;
                    Some ((fst state)\<lparr>settings := dict_set setting (status, output)
                                                   (settings (fst state))\<rparr>,
                          fst (snd state) @ [setting], tr') }) }"

text \<open>\<open>not metadata or not all(field in metadata for field in ["name", "productTypes"])\<close>.\<close>

definition metadata_missing :: "json \<Rightarrow> bool option" where
  "metadata_missing metadata =
     (if \<not> truthy metadata then Some True
      else do { has_name \<leftarrow> py_in ''name'' metadata;
                if \<not> has_name then Some True
                else do { has_types \<leftarrow> py_in ''productTypes'' metadata;
                          Some (\<not> has_types) } })"

definition initial_settings :: "json \<Rightarrow> string list \<Rightarrow> (string \<times> status \<times> json) list" where
  "initial_settings response remaining_settings =
     fold (\<lambda>setting done. dict_set setting (Skipped, JNull) done) remaining_settings
       [(''creation'', Success, response)]"

text \<open>
  \<open>build_new_network\<close>; the cache \<open>net_name_to_id\<close> is the module's global. The progress
  bar and the log are left out.
\<close>

definition build_new_network ::
  "env \<Rightarrow> (string \<Rightarrow> json option) \<Rightarrow> event list \<Rightarrow> json \<Rightarrow> json
     \<Rightarrow> (completion \<times> string list \<times> event list) option" where
  "build_new_network e net_name_to_id tr copy_from_id network_config =
     do { metadata \<leftarrow> py_get network_config ''metadata'' JNull;
          missing \<leftarrow> metadata_missing metadata;
          if missing
          then Some (\<lparr>c_name = JStr ''N/A'', settings = [(''creation'', Failure, JNull)]\<rparr>, [], tr)
          else do {
            name \<leftarrow> py_getitem metadata ''name'';
            metadata \<leftarrow> (if truthy copy_from_id
                           then py_setitem metadata ''copyFromNetworkId'' copy_from_id
                           else Some metadata);
            ((error_code, response), tr1) \<leftarrow> create_network e tr metadata net_name_to_id;
            if truthy error_code
            then Some (\<lparr>c_name = name, settings = [(''creation'', Failure, response)]\<rparr>, [], tr1)
            else do {
              net_id \<leftarrow> py_getitem response ''id'';
              remaining \<leftarrow> (case network_config of
                               JDict c \<Rightarrow> Some (dict_del ''metadata'' c)
                             | _ \<Rightarrow> None);
              response_name \<leftarrow> py_getitem response ''name'';
              for_each (build_step e net_name_to_id net_id remaining) (dict_keys remaining)
                (\<lparr>c_name = response_name,
                  settings = initial_settings response (dict_keys remaining)\<rparr>, [], tr1) } } }"

section \<open>setup.py: the summary table\<close>

text \<open>
  \<open>main\<close> collects the keys of every completion's settings in a set, sorts them into the
  columns, and fills one row per completion: the status of the setting in colour markup,
  or the empty string when the completion has no such setting.
\<close>

definition unique_settings :: "completion list \<Rightarrow> string set" where
  "unique_settings completions =
     fold (\<lambda>completion_result seen. seen \<union> set (dict_keys (settings completion_result)))
       completions {}"

definition unique_settings_sorted :: "completion list \<Rightarrow> string list" where
  "unique_settings_sorted completions = sorted_list_of_set (unique_settings completions)"

fun status_text :: "status \<Rightarrow> string" where
  "status_text Skipped = ''Skipped''"
| "status_text Success = ''Success''"
| "status_text Partial = ''Partial''"
| "status_text Failure = ''Failure''"

definition value_style :: "status \<Rightarrow> string" where
  "value_style value =
     (if value = Success then ''green'' else if value = Partial then ''yellow'' else ''red'')"

definition cell :: "completion \<Rightarrow> string \<Rightarrow> string" where
  "cell completion key =
     (case map_of (settings completion) key of
        Some (value, output) \<Rightarrow>
          ''['' @ value_style value @ '']'' @ status_text value @ ''[/'' @ value_style value @ '']''
      | None \<Rightarrow> [])"

definition row_values :: "string list \<Rightarrow> completion \<Rightarrow> json \<times> string list" where
  "row_values columns completion = (c_name completion, map (cell completion) columns)"

definition summary_table :: "completion list \<Rightarrow> string list \<times> (json \<times> string list) list" where
  "summary_table completions =
     (unique_settings_sorted completions,
      map (row_values (unique_settings_sorted completions)) completions)"

section \<open>The firmware section as the specification describes it\<close>







section \<open>Concrete environments\<close>

text \<open>
  An SDK whose every method returns its keyword arguments, with one fragment file
  \<open>snmp.json\<close> in the configuration directory.
\<close>

definition echo_env :: env where
  "echo_env =
     \<lparr>respond = (\<lambda>tr op args kw. Returned (JDict kw)),
      files = [''snmp.json'' \<mapsto> JDict [(''access'', JStr ''community'')]],
      ORG_ID = JStr ''org''\<rparr>"

text \<open>
  An SDK whose every method succeeds and returns its keyword arguments under the
  identifier \<open>N_1\<close>, and one whose every method raises the APIError of a rejected
  request. Neither has fragment files.
\<close>

definition created_env :: env where
  "created_env =
     \<lparr>respond = (\<lambda>tr op args kw. Returned (JDict ((''id'', JStr ''N_1'') # kw))),
      files = (\<lambda>f. None),
      ORG_ID = JStr ''org''\<rparr>"

definition failing_env :: env where
  "failing_env =
     \<lparr>respond = (\<lambda>tr op args kw.
                   APIError (JNum 400) (JDict [(''errors'', JList [JStr ''Invalid product type''])])
                     ''400 Bad Request''),
      files = (\<lambda>f. None),
      ORG_ID = JStr ''org''\<rparr>"



text \<open>Two completion records, of which only the first has a \<open>vlans\<close> entry.\<close>

definition two_completions :: "completion list" where
  "two_completions =
     [\<lparr>c_name = JStr ''A'',
       settings = [(''creation'', Success, JNull), (''vlans'', Partial, JNull)]\<rparr>,
      \<lparr>c_name = JStr ''B'', settings = [(''creation'', Success, JNull)]\<rparr>]"




section \<open>Properties of the custom-field separation\<close>

lemma dict_set_fresh:
  "k \<notin> set (dict_keys d) \<Longrightarrow> dict_set k v d = d @ [(k, v)]"
  by (induction d) (auto simp: dict_keys_def)

lemma separate_loop_filter:
  assumes "distinct (dict_keys (fst acc @ snd acc @ items))"
  shows "separate_loop items acc =
           (fst acc @ filter (\<lambda>p. startswith (fst p) ''_'') items,
            snd acc @ filter (\<lambda>p. \<not> startswith (fst p) ''_'') items)"
  using assms
proof (induction items arbitrary: acc)
  case Nil
  then show ?case by simp
next
  case (Cons item items)
  obtain cs rs where acc: "acc = (cs, rs)" by (cases acc)
  from Cons.prems acc have fresh_c: "fst item \<notin> set (dict_keys cs)"
    and fresh_r: "fst item \<notin> set (dict_keys rs)"
    by (auto simp: dict_keys_def)
  show ?case
  proof (cases "startswith (fst item) ''_''")
    case True
    have d: "distinct (dict_keys (fst (cs @ [item], rs) @ snd (cs @ [item], rs) @ items))"
      using Cons.prems acc by (auto simp: dict_keys_def)
    from Cons.IH [OF d] True fresh_c acc show ?thesis
      by (simp add: dict_set_fresh)
  next
    case False
    have d: "distinct (dict_keys (fst (cs, rs @ [item]) @ snd (cs, rs @ [item]) @ items))"
      using Cons.prems acc by (auto simp: dict_keys_def)
    from Cons.IH [OF d] False fresh_r acc show ?thesis
      by (simp add: dict_set_fresh)
  qed
qed

text \<open>
  C2. For a dict payload (distinct keys, in insertion order) the function returns the
  pair (derived, remaining) where derived is the payload restricted to the top-level keys
  that begin with an underscore and remaining is the payload without them; both keep the
  payload's order and carry the original values untouched, so no nested value is looked
  into, and no underscore key is left in the remaining dict.
\<close>

theorem separate_custom_fields_partition:
  assumes "distinct (dict_keys config)"
  shows "separate_custom_fields config =
           (filter (\<lambda>p. startswith (fst p) ''_'') config,
            filter (\<lambda>p. \<not> startswith (fst p) ''_'') config)
         \<and> (\<forall>k \<in> set (dict_keys (snd (separate_custom_fields config))). \<not> startswith k ''_'')
         \<and> (\<forall>k \<in> set (dict_keys (fst (separate_custom_fields config))). startswith k ''_'')"
proof -
  have "distinct (dict_keys (fst ([], []) @ snd ([], []) @ config))"
    using assms by simp
  from separate_loop_filter [OF this]
  have eq: "separate_custom_fields config =
           (filter (\<lambda>p. startswith (fst p) ''_'') config,
            filter (\<lambda>p. \<not> startswith (fst p) ''_'') config)"
    by (simp add: separate_custom_fields_def)
  show ?thesis
    unfolding eq by (auto simp: dict_keys_def)
qed

theorem separate_custom_fields_partition_witness:
  "separate_custom_fields
     [(''id'', JNum 10), (''_vpn'', JDict [(''_ref'', JStr ''vpn.json'')]), (''name'', JStr ''Data'')]
   = ([(''_vpn'', JDict [(''_ref'', JStr ''vpn.json'')])],
      [(''id'', JNum 10), (''name'', JStr ''Data'')])"
proof -
  have d: "distinct (dict_keys
     [(''id'', JNum 10), (''_vpn'', JDict [(''_ref'', JStr ''vpn.json'')]), (''name'', JStr ''Data'')])"
    by (simp add: dict_keys_def)
  from separate_custom_fields_partition [OF d] show ?thesis
    by (simp add: startswith_def)
qed

section \<open>Fragment references in the single-call appliers\<close>

text \<open>
  C10. When the section payload is a reference whose fragment file loads, the payload
  forwarded to the backend should be the fragment's contents. The AMP applier does so;
  the SNMP applier loads the fragment into an unused variable and forwards the original
  reference object: here the fragment \<open>{"access": "community"}\<close> exists and
  \<open>updateNetworkSnmp\<close> receives \<open>{"_ref": "snmp.json"}\<close>.
\<close>

theorem snmp_config_forwards_reference:
  "snmp_config echo_env [] (JStr ''N_1'') (JDict [(''_ref'', JStr ''snmp.json'')])
   = Some ((Success, JDict [(''_ref'', JStr ''snmp.json'')]),
           [Sdk UpdateNetworkSnmp [JStr ''N_1''] [(''_ref'', JStr ''snmp.json'')]])"
  by (simp add: snmp_config_def check_ref_def load_ref_config_def echo_env_def finish_def
      update_snmp_def wrapper_def sdk_call_def dict_keys_def)

lemma amp_config_forwards_fragment:
  "amp_config echo_env [] (JStr ''N_1'') (JDict [(''_ref'', JStr ''snmp.json'')])
   = Some ((Success, JDict [(''access'', JStr ''community'')]),
           [Sdk UpdateNetworkApplianceSecurityMalware [JStr ''N_1'']
              [(''access'', JStr ''community'')]])"
  by (simp add: amp_config_def check_ref_def load_ref_config_def echo_env_def finish_def
      update_malware_settings_def wrapper_def sdk_call_def dict_keys_def)

section \<open>Site-to-site VPN hubs\<close>

text \<open>
  C3. A spoke whose only hub names a network absent from the cache should be sent with
  the hub dropped and the mode downgraded to hub. The source collects the translated
  hubs in \<open>valid_hubs\<close> and never uses the list: the payload goes out as it came in, mode
  \<open>spoke\<close> and the untranslated hub included.
\<close>

theorem site_to_site_vpn_config_keeps_unknown_hub:
  "site_to_site_vpn_config echo_env [] (JStr ''N_1'') (\<lambda>name. None)
     (JDict [(''mode'', JStr ''spoke''), (''hubs'', JList [JDict [(''hubId'', JStr ''HQ'')]])])
   = Some ((Success,
            JDict [(''mode'', JStr ''spoke''), (''hubs'', JList [JDict [(''hubId'', JStr ''HQ'')]])]),
           [Sdk UpdateNetworkApplianceVpnSiteToSiteVpn [JStr ''N_1'']
              [(''mode'', JStr ''spoke''), (''hubs'', JList [JDict [(''hubId'', JStr ''HQ'')]])]])"
  by (simp add: site_to_site_vpn_config_def site_to_site_payload_def translate_hub_def
      check_ref_def load_ref_config_def echo_env_def finish_def
      update_site_to_site_vpn_def wrapper_def sdk_call_def dict_keys_def)

section \<open>The network builder\<close>

lemma map_of_key: "map_of d k = Some v \<Longrightarrow> k \<in> set (dict_keys d)"
  by (auto simp: dict_keys_def dest: map_of_SomeD intro: rev_image_eqI)



lemma apply_setting_known:
  "(apply_setting e n2i tr net_id setting config = None) = (setting \<notin> set known_settings)"
  by (simp add: apply_setting_def known_settings_def)

lemma build_step_invoked:
  assumes "build_step e n2i net_id rem setting (cs, called, tr) = Some (cs', called', tr')"
  shows "called' = called @ filter (\<lambda>s. s \<in> set known_settings) [setting]"
proof (cases "apply_setting e n2i tr net_id setting (the (map_of rem setting))")
  case None
  then have "setting \<notin> set known_settings" by (simp add: apply_setting_known)
  with assms None show ?thesis
    by (auto simp: build_step_def split: option.splits Option.bind_splits)
next
  case (Some r)
  then have "setting \<in> set known_settings"
    using apply_setting_known [of e n2i tr net_id setting "the (map_of rem setting)"] by auto
  with assms Some show ?thesis
    by (auto simp: build_step_def split: option.splits Option.bind_splits prod.splits)
qed

lemma build_loop_invoked:
  "for_each (build_step e n2i net_id rem) ks (cs, called, tr) = Some (cs', called', tr')
   \<Longrightarrow> called' = called @ filter (\<lambda>s. s \<in> set known_settings) ks"
proof (induction ks arbitrary: cs called tr)
  case Nil
  then show ?case by simp
next
  case (Cons k ks)
  from Cons.prems obtain c1 i1 t1 where
    step: "build_step e n2i net_id rem k (cs, called, tr) = Some (c1, i1, t1)"
    and rest: "for_each (build_step e n2i net_id rem) ks (c1, i1, t1) = Some (cs', called', tr')"
    by (cases "build_step e n2i net_id rem k (cs, called, tr)") auto
  from build_step_invoked [OF step] Cons.IH [OF rest] show ?case by simp
qed

lemma build_new_network_created:
  assumes md: "map_of c ''metadata'' = Some (JDict md)"
    and name: "map_of md ''name'' = Some name"
    and types: "''productTypes'' \<in> set (dict_keys md)"
    and created: "create_network e tr
        (JDict (if truthy copy_from_id then dict_set ''copyFromNetworkId'' copy_from_id md else md))
        n2i = Some ((error_code, response), tr1)"
  shows "build_new_network e n2i tr copy_from_id (JDict c) =
     (if truthy error_code
      then Some (\<lparr>c_name = name, settings = [(''creation'', Failure, response)]\<rparr>, [], tr1)
      else do { net_id \<leftarrow> py_getitem response ''id'';
                response_name \<leftarrow> py_getitem response ''name'';
                for_each (build_step e n2i net_id (dict_del ''metadata'' c))
                  (dict_keys (dict_del ''metadata'' c))
                  (\<lparr>c_name = response_name,
                    settings = initial_settings response (dict_keys (dict_del ''metadata'' c))\<rparr>,
                   [], tr1) })"
proof -
  from name have n: "''name'' \<in> set (dict_keys md)" by (rule map_of_key)
  then have ne: "md \<noteq> []" by (auto simp: dict_keys_def)
  have mm: "metadata_missing (JDict md) = Some False"
    using n types ne by (simp add: metadata_missing_def)
  show ?thesis
  proof (cases "truthy copy_from_id")
    case True
    with md name mm created show ?thesis
      by (simp add: build_new_network_def)
  next
    case False
    with md name mm created show ?thesis
      by (simp add: build_new_network_def)
  qed
qed


lemmas eval_defs = build_new_network_def metadata_missing_def create_network_def sdk_call_def
  first_error_has_def dict_keys_def dict_del_def initial_settings_def build_step_def
  apply_setting_def update_network_def wrapper_def cache_lookup_def
  check_ref_def load_ref_config_def finish_def

text \<open>
  C5. As amended: when the metadata of a network is absent or falsy (None, an empty
  object), or is an object without the key \<open>name\<close> or without the key \<open>productTypes\<close>,
  the builder returns the completion record named \<open>N/A\<close> whose creation status is Failure,
  calls no applier and issues no backend call. An empty \<open>productTypes\<close> list is not
  checked.
\<close>

theorem build_new_network_metadata_missing:
  assumes "map_of c ''metadata'' = None
         \<or> (\<exists>m. map_of c ''metadata'' = Some m \<and> \<not> truthy m)
         \<or> (\<exists>md. map_of c ''metadata'' = Some (JDict md)
                 \<and> (''name'' \<notin> set (dict_keys md) \<or> ''productTypes'' \<notin> set (dict_keys md)))"
  shows "build_new_network e n2i tr copy_from_id (JDict c) =
           Some (\<lparr>c_name = JStr ''N/A'', settings = [(''creation'', Failure, JNull)]\<rparr>, [], tr)"
  using assms
  by (auto simp: build_new_network_def metadata_missing_def)

theorem build_new_network_metadata_missing_witness:
  "build_new_network created_env (\<lambda>n. None) [] JNull
     (JDict [(''metadata'', JDict [(''name'', JStr ''Branch1'')]), (''vlans'', JList [])]) =
   Some (\<lparr>c_name = JStr ''N/A'', settings = [(''creation'', Failure, JNull)]\<rparr>, [], [])"
  using build_new_network_metadata_missing
    [of "[(''metadata'', JDict [(''name'', JStr ''Branch1'')]), (''vlans'', JList [])]"
        created_env "\<lambda>n. None" "[]" JNull]
  by (simp add: dict_keys_def)

text \<open>
  The claim as stated fails for a metadata whose \<open>productTypes\<close> is the empty list: the
  create call is issued and the record carries the network's name.
\<close>

theorem build_new_network_empty_product_types:
  "build_new_network created_env (\<lambda>n. None) [] JNull
     (JDict [(''metadata'', JDict [(''name'', JStr ''Branch1''), (''productTypes'', JList [])])]) =
   Some (\<lparr>c_name = JStr ''Branch1'',
          settings = [(''creation'', Success,
                       JDict [(''id'', JStr ''N_1''), (''name'', JStr ''Branch1''),
                              (''productTypes'', JList [])])]\<rparr>,
         [],
         [Sdk CreateOrganizationNetwork [JStr ''org'']
            [(''name'', JStr ''Branch1''), (''productTypes'', JList [])]])"
  by (simp add: eval_defs created_env_def)

text \<open>
  C8. As amended: when the creation call of a network returns an error, no applier is
  called, the only backend calls are those of the creation, and the completion record
  holds the network's name and the single entry \<open>creation\<close> with status Failure and the
  error as output. The declared sections are not entered into the record.
\<close>

theorem build_new_network_creation_failed:
  assumes "map_of c ''metadata'' = Some (JDict md)"
    and "map_of md ''name'' = Some name"
    and "''productTypes'' \<in> set (dict_keys md)"
    and "create_network e tr
           (JDict (if truthy copy_from_id then dict_set ''copyFromNetworkId'' copy_from_id md else md))
           n2i = Some ((error_code, response), tr1)"
    and "truthy error_code"
  shows "build_new_network e n2i tr copy_from_id (JDict c) =
           Some (\<lparr>c_name = name, settings = [(''creation'', Failure, response)]\<rparr>, [], tr1)"
  using build_new_network_created [OF assms(1-4)] assms(5) by simp

theorem build_new_network_creation_failed_witness:
  "build_new_network failing_env (\<lambda>n. None) [] (JStr ''N_0'')
     (JDict [(''metadata'', JDict [(''name'', JStr ''Branch2''), (''productTypes'', JList [])]),
             (''devices'', JList [])]) =
   Some (\<lparr>c_name = JStr ''Branch2'',
          settings = [(''creation'', Failure, JStr ''400 Bad Request'')]\<rparr>,
         [],
         [Sdk CreateOrganizationNetwork [JStr ''org'']
            [(''name'', JStr ''Branch2''), (''productTypes'', JList []),
             (''copyFromNetworkId'', JStr ''N_0'')]])"
proof -
  have created: "create_network failing_env []
      (JDict (if truthy (JStr ''N_0'')
              then dict_set ''copyFromNetworkId'' (JStr ''N_0'')
                     [(''name'', JStr ''Branch2''), (''productTypes'', JList [])]
              else [(''name'', JStr ''Branch2''), (''productTypes'', JList [])]))
      (\<lambda>n. None)
    = Some ((JNum 400, JStr ''400 Bad Request''),
            [Sdk CreateOrganizationNetwork [JStr ''org'']
               [(''name'', JStr ''Branch2''), (''productTypes'', JList []),
                (''copyFromNetworkId'', JStr ''N_0'')]])"
    by (simp add: create_network_def sdk_call_def failing_env_def first_error_has_def)
  show ?thesis
    by (rule build_new_network_creation_failed [OF _ _ _ created])
       (simp_all add: dict_keys_def)
qed

text \<open>
  The claim as stated fails: the network below declares \<open>vlans\<close>, its creation is
  rejected, and the record has no \<open>vlans\<close> entry.
\<close>

theorem build_new_network_failed_record:
  "build_new_network failing_env (\<lambda>n. None) [] JNull
     (JDict [(''metadata'', JDict [(''name'', JStr ''Branch1''),
                                   (''productTypes'', JList [JStr ''appliance''])]),
             (''vlans'', JList [])]) =
   Some (\<lparr>c_name = JStr ''Branch1'',
          settings = [(''creation'', Failure, JStr ''400 Bad Request'')]\<rparr>,
         [],
         [Sdk CreateOrganizationNetwork [JStr ''org'']
            [(''name'', JStr ''Branch1''), (''productTypes'', JList [JStr ''appliance''])]])"
  by (simp add: eval_defs failing_env_def)

text \<open>
  C1. As amended: for a network whose creation succeeds, the appliers are called in the
  order in which the section keys appear in the network's document (keys that the
  builder does not know are passed over), not in a fixed precedence order.
\<close>

theorem build_new_network_order:
  assumes "map_of c ''metadata'' = Some (JDict md)"
    and "map_of md ''name'' = Some name"
    and "''productTypes'' \<in> set (dict_keys md)"
    and "create_network e tr
           (JDict (if truthy copy_from_id then dict_set ''copyFromNetworkId'' copy_from_id md else md))
           n2i = Some ((error_code, response), tr1)"
    and "\<not> truthy error_code"
    and "build_new_network e n2i tr copy_from_id (JDict c) = Some (cs, called, tr')"
  shows "called = filter (\<lambda>s. s \<in> set known_settings) (dict_keys (dict_del ''metadata'' c))"
proof -
  from build_new_network_created [OF assms(1-4)] assms(5,6)
  obtain net_id response_name where
    "for_each (build_step e n2i net_id (dict_del ''metadata'' c))
       (dict_keys (dict_del ''metadata'' c))
       (\<lparr>c_name = response_name,
         settings = initial_settings response (dict_keys (dict_del ''metadata'' c))\<rparr>, [], tr1)
     = Some (cs, called, tr')"
    by (auto split: Option.bind_splits)
  from build_loop_invoked [OF this] show ?thesis by simp
qed

theorem build_new_network_order_witness:
  "build_new_network created_env (\<lambda>n. None) [] JNull
     (JDict [(''metadata'', JDict [(''name'', JStr ''Branch1''),
                                   (''productTypes'', JList [JStr ''appliance''])]),
             (''amp'', JDict [(''mode'', JStr ''enabled'')]),
             (''wireless'', JDict []),
             (''syslog'', JDict [(''servers'', JList [])])]) =
   Some (\<lparr>c_name = JStr ''Branch1'',
          settings = [(''creation'', Success,
                       JDict [(''id'', JStr ''N_1''), (''name'', JStr ''Branch1''),
                              (''productTypes'', JList [JStr ''appliance''])]),
                      (''amp'', Success, JDict [(''id'', JStr ''N_1''), (''mode'', JStr ''enabled'')]),
                      (''wireless'', Skipped, JNull),
                      (''syslog'', Success, JDict [(''id'', JStr ''N_1''), (''servers'', JList [])])]\<rparr>,
         filter (\<lambda>s. s \<in> set known_settings)
           (dict_keys (dict_del ''metadata''
              [(''metadata'', JDict [(''name'', JStr ''Branch1''),
                                     (''productTypes'', JList [JStr ''appliance''])]),
               (''amp'', JDict [(''mode'', JStr ''enabled'')]),
               (''wireless'', JDict []),
               (''syslog'', JDict [(''servers'', JList [])])])),
         [Sdk CreateOrganizationNetwork [JStr ''org'']
            [(''name'', JStr ''Branch1''), (''productTypes'', JList [JStr ''appliance''])],
          Sdk UpdateNetworkApplianceSecurityMalware [JStr ''N_1''] [(''mode'', JStr ''enabled'')],
          Sdk UpdateNetworkSyslogServers [JStr ''N_1''] [(''servers'', JList [])]])"
proof -
  have run: "build_new_network created_env (\<lambda>n. None) [] JNull
     (JDict [(''metadata'', JDict [(''name'', JStr ''Branch1''),
                                   (''productTypes'', JList [JStr ''appliance''])]),
             (''amp'', JDict [(''mode'', JStr ''enabled'')]),
             (''wireless'', JDict []),
             (''syslog'', JDict [(''servers'', JList [])])]) =
   Some (\<lparr>c_name = JStr ''Branch1'',
          settings = [(''creation'', Success,
                       JDict [(''id'', JStr ''N_1''), (''name'', JStr ''Branch1''),
                              (''productTypes'', JList [JStr ''appliance''])]),
                      (''amp'', Success, JDict [(''id'', JStr ''N_1''), (''mode'', JStr ''enabled'')]),
                      (''wireless'', Skipped, JNull),
                      (''syslog'', Success, JDict [(''id'', JStr ''N_1''), (''servers'', JList [])])]\<rparr>,
         [''amp'', ''syslog''],
         [Sdk CreateOrganizationNetwork [JStr ''org'']
            [(''name'', JStr ''Branch1''), (''productTypes'', JList [JStr ''appliance''])],
          Sdk UpdateNetworkApplianceSecurityMalware [JStr ''N_1''] [(''mode'', JStr ''enabled'')],
          Sdk UpdateNetworkSyslogServers [JStr ''N_1''] [(''servers'', JList [])]])"
    by (simp add: eval_defs created_env_def syslog_server_config_def amp_config_def
        update_sys_log_servers_def update_malware_settings_def)
  have created: "create_network created_env []
      (JDict (if truthy JNull
              then dict_set ''copyFromNetworkId'' JNull
                     [(''name'', JStr ''Branch1''), (''productTypes'', JList [JStr ''appliance''])]
              else [(''name'', JStr ''Branch1''), (''productTypes'', JList [JStr ''appliance''])]))
      (\<lambda>n. None)
    = Some ((JNull, JDict [(''id'', JStr ''N_1''), (''name'', JStr ''Branch1''),
                           (''productTypes'', JList [JStr ''appliance''])]),
            [Sdk CreateOrganizationNetwork [JStr ''org'']
               [(''name'', JStr ''Branch1''), (''productTypes'', JList [JStr ''appliance''])]])"
    by (simp add: create_network_def sdk_call_def created_env_def)
  have "[''amp'', ''syslog''] = filter (\<lambda>s. s \<in> set known_settings)
           (dict_keys (dict_del ''metadata''
              [(''metadata'', JDict [(''name'', JStr ''Branch1''),
                                     (''productTypes'', JList [JStr ''appliance''])]),
               (''amp'', JDict [(''mode'', JStr ''enabled'')]),
               (''wireless'', JDict []),
               (''syslog'', JDict [(''servers'', JList [])])]))"
    by (rule build_new_network_order [OF _ _ _ created _ run]) (simp_all add: dict_keys_def)
  with run show ?thesis by simp
qed

text \<open>
  The claim as stated fails: \<open>syslog\<close> comes before \<open>amp\<close> in the document below and is
  applied first, while the fixed precedence order puts \<open>amp\<close> before \<open>syslog\<close>.
\<close>

theorem build_new_network_document_order:
  "build_new_network created_env (\<lambda>n. None) [] JNull
     (JDict [(''metadata'', JDict [(''name'', JStr ''Branch1''),
                                   (''productTypes'', JList [JStr ''appliance''])]),
             (''syslog'', JDict [(''servers'', JList [])]),
             (''amp'', JDict [(''mode'', JStr ''enabled'')])]) =
   Some (\<lparr>c_name = JStr ''Branch1'',
          settings = [(''creation'', Success,
                       JDict [(''id'', JStr ''N_1''), (''name'', JStr ''Branch1''),
                              (''productTypes'', JList [JStr ''appliance''])]),
                      (''syslog'', Success, JDict [(''id'', JStr ''N_1''), (''servers'', JList [])]),
                      (''amp'', Success, JDict [(''id'', JStr ''N_1''), (''mode'', JStr ''enabled'')])]\<rparr>,
         [''syslog'', ''amp''],
         [Sdk CreateOrganizationNetwork [JStr ''org'']
            [(''name'', JStr ''Branch1''), (''productTypes'', JList [JStr ''appliance''])],
          Sdk UpdateNetworkSyslogServers [JStr ''N_1''] [(''servers'', JList [])],
          Sdk UpdateNetworkApplianceSecurityMalware [JStr ''N_1''] [(''mode'', JStr ''enabled'')]])"
  by (simp add: eval_defs created_env_def syslog_server_config_def amp_config_def
      update_sys_log_servers_def update_malware_settings_def)

section \<open>Creation as an upsert\<close>









section \<open>The summary table\<close>

lemma unique_settings_union:
  "fold (\<lambda>completion_result seen. seen \<union> set (dict_keys (settings completion_result))) cs A
   = A \<union> (\<Union>c \<in> set cs. set (dict_keys (settings c)))"
  by (induction cs arbitrary: A) auto

lemma unique_settings_set:
  "unique_settings completions = (\<Union>c \<in> set completions. set (dict_keys (settings c)))"
  by (simp add: unique_settings_def unique_settings_union)

lemma finite_unique_settings: "finite (unique_settings completions)"
  by (simp add: unique_settings_set)

lemma map_of_None_key: "(map_of d k = None) = (k \<notin> set (dict_keys d))"
  by (simp add: map_of_eq_None_iff dict_keys_def)

text \<open>
  C9. As amended: the columns of the summary table are the sorted union, without
  repetition, of the section names in all completion records (the entry \<open>creation\<close>
  included); a row holds the network's name and, for every column, the recorded status
  of that section in colour markup when the record has the section, and an empty cell
  when it has not.
\<close>

theorem summary_table_cells:
  "sorted (fst (summary_table completions))
   \<and> distinct (fst (summary_table completions))
   \<and> set (fst (summary_table completions)) = (\<Union>c \<in> set completions. set (dict_keys (settings c)))
   \<and> length (snd (summary_table completions)) = length completions
   \<and> (\<forall>i < length completions.
        fst (snd (summary_table completions) ! i) = c_name (completions ! i)
        \<and> length (snd (snd (summary_table completions) ! i)) = length (fst (summary_table completions))
        \<and> (\<forall>j < length (fst (summary_table completions)).
             (\<forall>value output.
                map_of (settings (completions ! i)) (fst (summary_table completions) ! j)
                  = Some (value, output) \<longrightarrow>
                snd (snd (summary_table completions) ! i) ! j
                  = ''['' @ value_style value @ '']'' @ status_text value
                    @ ''[/'' @ value_style value @ '']'')
             \<and> (fst (summary_table completions) ! j \<notin> set (dict_keys (settings (completions ! i)))
                  \<longrightarrow> snd (snd (summary_table completions) ! i) ! j = [])))"
  by (auto simp: summary_table_def unique_settings_sorted_def finite_unique_settings
      unique_settings_set row_values_def cell_def map_of_None_key [symmetric])

lemma two_columns: "unique_settings_sorted two_completions = [''creation'', ''vlans'']"
proof -
  have "unique_settings two_completions = {''creation'', ''vlans''}"
    by (auto simp: unique_settings_def two_completions_def dict_keys_def)
  moreover have "sorted_list_of_set {''creation'', ''vlans''} = [''creation'', ''vlans'']"
    by code_simp
  ultimately show ?thesis by (simp add: unique_settings_sorted_def)
qed

theorem summary_table_cells_witness:
  "set (fst (summary_table two_completions)) = {''creation'', ''vlans''}
   \<and> snd (snd (summary_table two_completions) ! 1) ! 1 = []"
proof -
  have cols: "fst (summary_table two_completions) = [''creation'', ''vlans'']"
    by (simp add: summary_table_def two_columns)
  from summary_table_cells [of two_completions]
  have s: "set (fst (summary_table two_completions))
            = (\<Union>c \<in> set two_completions. set (dict_keys (settings c)))"
    and r: "\<forall>i < length two_completions.
        (\<forall>j < length (fst (summary_table two_completions)).
           (fst (summary_table two_completions) ! j \<notin> set (dict_keys (settings (two_completions ! i)))
                  \<longrightarrow> snd (snd (summary_table two_completions) ! i) ! j = []))"
    by blast+
  from r have "snd (snd (summary_table two_completions) ! 1) ! 1 = []"
    unfolding cols by (simp add: two_completions_def dict_keys_def)
  moreover from s have "set (fst (summary_table two_completions)) = {''creation'', ''vlans''}"
    by (auto simp: two_completions_def dict_keys_def)
  ultimately show ?thesis by simp
qed

text \<open>
  The claim as stated fails: the second record has no \<open>vlans\<close> entry and its cell in
  that column is empty; \<open>Skipped\<close> is not shown.
\<close>

theorem summary_table_empty_cell:
  "summary_table two_completions =
     ([''creation'', ''vlans''],
      [(JStr ''A'', [''[green]Success[/green]'', ''[yellow]Partial[/yellow]'']),
       (JStr ''B'', [''[green]Success[/green]'', []])])"
  by (simp add: summary_table_def two_columns)
     (simp add: two_completions_def row_values_def cell_def value_style_def)

section \<open>References to missing fragment files\<close>





































section \<open>The firmware guard\<close>
















end
